theory Spec2Isabelle
  imports Complex_Main "HOL-Library.Word" "HOL-Library.Sublist" "HOL-Library.AList"
begin

unbundle bit_operations_syntax

section \<open>Common data\<close>

text \<open>
  Byte slices are lists of 8-bit words, Go strings are \<open>string\<close> (a list of 8-bit
  characters). A Go \<open>error\<close> value is an \<open>error option\<close>: \<open>None\<close> is \<open>nil\<close>.
  Format arguments of error messages are not rendered: the constructor carries the format.
\<close>

type_synonym byte = "8 word"
type_synonym bytes = "byte list"

datatype error =
    Errorf string           \<comment> \<open>\<open>errors.Errorf\<close>, \<open>errors.New\<close> and library errors, by message\<close>
  | Wrapped error string    \<comment> \<open>\<open>errors.Wrapf err msg\<close> for a non-nil \<open>err\<close>\<close>

text \<open>
  \<open>errors.Wrapf\<close> of \<open>github.com/pkg/errors\<close>: "If err is nil, Wrapf returns nil."
\<close>

fun Wrapf :: "error option \<Rightarrow> string \<Rightarrow> error option" where
  "Wrapf None msg = None"
| "Wrapf (Some e) msg = Some (Wrapped e msg)"

section \<open>pkg/config/config.go\<close>

text \<open>
  \<open>hex.DecodeString\<close> of the Go standard library: two hex digits (either case) per byte;
  an invalid digit or an odd length is an error, reported with the bytes decoded so far.
\<close>

definition fromHexChar :: "char \<Rightarrow> byte option" where
  "fromHexChar c =
     (let n = (of_char c :: nat) in
      if 48 \<le> n \<and> n \<le> 57 then Some (of_nat (n - 48))
      else if 97 \<le> n \<and> n \<le> 102 then Some (of_nat (n - 87))
      else if 65 \<le> n \<and> n \<le> 70 then Some (of_nat (n - 55))
      else None)"

fun hex_DecodeString :: "string \<Rightarrow> bytes \<times> error option" where
  "hex_DecodeString [] = ([], None)"
| "hex_DecodeString [p] =
     (case fromHexChar p of
        None \<Rightarrow> ([], Some (Errorf ''encoding/hex: invalid byte''))
      | Some a \<Rightarrow> ([], Some (Errorf ''encoding/hex: odd length hex string'')))"
| "hex_DecodeString (p # q # rest) =
     (case fromHexChar p of
        None \<Rightarrow> ([], Some (Errorf ''encoding/hex: invalid byte''))
      | Some a \<Rightarrow>
          (case fromHexChar q of
             None \<Rightarrow> ([], Some (Errorf ''encoding/hex: invalid byte''))
           | Some b \<Rightarrow>
               (case hex_DecodeString rest of
                  (bs, err) \<Rightarrow> ((push_bit 4 a OR b) # bs, err))))"

text \<open>
  The fields of \<open>Config\<close> that validation reads. \<open>GasMultiplier\<close> is a \<open>float32\<close>
  read from JSON (never NaN); it is compared with 0 and 20 only, so it is a real here.
\<close>

record Config =
  PublicAddress :: string
  GasMultiplier :: real
  ServerWhitelist :: "string list"

definition PrivateKeyEnvName :: string where
  "PrivateKeyEnvName = ''ETH_PRIVATE_KEY''"

definition NodeURLEnvName :: string where
  "NodeURLEnvName = ''NODE_URL''"

text \<open>
  \<open>validateConfig\<close>. The process environment is \<open>getenv\<close> (\<open>os.Getenv\<close>: the empty
  string for an unset variable). The result is the returned \<open>error\<close>: \<open>None\<close> accepts.
\<close>

definition validateConfig :: "(string \<Rightarrow> string) \<Rightarrow> Config \<Rightarrow> error option" where
  "validateConfig getenv cfg =
     (case hex_DecodeString (PublicAddress cfg) of
        (b, err) \<Rightarrow>
          if err \<noteq> None \<or> length b \<noteq> 20 then
            Wrapf err ''expecting 40 hex character public address, got \"%s\"''
          else if getenv NodeURLEnvName = [] then
            Some (Errorf ''missing nodeURL environment variable '%v' '')
          else
            (case hex_DecodeString (getenv PrivateKeyEnvName) of
               (b', err') \<Rightarrow>
                 if err' \<noteq> None \<or> length b' \<noteq> 32 then
                   Wrapf err' ''expecting 64 hex character private key, got \"%s\"''
                 else if GasMultiplier cfg < 0 \<or> GasMultiplier cfg > 20 then
                   Some (Errorf ''gas multiplier out of range [0, 20] %f'')
                 else None))"

section \<open>pkg/db: the wire codec (remoteRequest.go)\<close>

type_synonym int64 = "64 word"
type_synonym uint32 = "32 word"

text \<open>
  A reader (\<open>bytes.Reader\<close>, \<open>io.Reader\<close>) is the list of bytes not yet read: a decoder
  returns the value and the rest. A \<open>bytes.Buffer\<close> written to is the list of bytes
  written so far; writing to it never fails.
\<close>

definition byte_of_char :: "char \<Rightarrow> byte" where
  "byte_of_char c = of_nat (of_char c)"

definition char_of_byte :: "byte \<Rightarrow> char" where
  "char_of_byte b = char_of (unat b)"

text \<open>
  Modelled from the spec: the helpers \<open>encode\<close>, \<open>decode\<close>, \<open>encodeString\<close>,
  \<open>decodeString\<close>, \<open>encodeBytes\<close> and \<open>decodeBytes\<close> of package \<open>db\<close> are not in the
  sources at hand. The spec fixes the layout: "length-prefixed, big-endian", an \<open>int64\<close>
  timestamp, \<open>uint32\<close> counts and lengths, each key, value and signature as
  "\<open>uint32 len, bytes\<close>". A length is written as the callers in the source write counts,
  \<open>uint32(len(x))\<close>, which keeps the low 32 bits. Reading past the end is an error.
\<close>

definition encode_int64 :: "int64 \<Rightarrow> bytes" where
  "encode_int64 t =
     [ucast (drop_bit 56 t), ucast (drop_bit 48 t), ucast (drop_bit 40 t),
      ucast (drop_bit 32 t), ucast (drop_bit 24 t), ucast (drop_bit 16 t),
      ucast (drop_bit 8 t), ucast t]"

definition encode_uint32 :: "uint32 \<Rightarrow> bytes" where
  "encode_uint32 n =
     [ucast (drop_bit 24 n), ucast (drop_bit 16 n), ucast (drop_bit 8 n), ucast n]"

fun decode_int64 :: "bytes \<Rightarrow> error + (int64 \<times> bytes)" where
  "decode_int64 (b0 # b1 # b2 # b3 # b4 # b5 # b6 # b7 # rest) =
     Inr (push_bit 56 (ucast b0) OR push_bit 48 (ucast b1) OR push_bit 40 (ucast b2) OR
          push_bit 32 (ucast b3) OR push_bit 24 (ucast b4) OR push_bit 16 (ucast b5) OR
          push_bit 8 (ucast b6) OR ucast b7, rest)"
| "decode_int64 [] = Inl (Errorf ''EOF'')"
| "decode_int64 short = Inl (Errorf ''unexpected EOF'')"

fun decode_uint32 :: "bytes \<Rightarrow> error + (uint32 \<times> bytes)" where
  "decode_uint32 (b0 # b1 # b2 # b3 # rest) =
     Inr (push_bit 24 (ucast b0) OR push_bit 16 (ucast b1) OR push_bit 8 (ucast b2) OR
          ucast b3, rest)"
| "decode_uint32 [] = Inl (Errorf ''EOF'')"
| "decode_uint32 short = Inl (Errorf ''unexpected EOF'')"

definition encodeBytes :: "bytes \<Rightarrow> bytes" where
  "encodeBytes bts = encode_uint32 (of_nat (length bts)) @ bts"

definition encodeString :: "string \<Rightarrow> bytes" where
  "encodeString val = encodeBytes (map byte_of_char val)"

definition decodeBytes :: "bytes \<Rightarrow> error + (bytes \<times> bytes)" where
  "decodeBytes buf =
     (case decode_uint32 buf of
        Inl err \<Rightarrow> Inl err
      | Inr (len, rest) \<Rightarrow>
          if length rest < unat len then Inl (Errorf ''unexpected EOF'')
          else Inr (take (unat len) rest, drop (unat len) rest))"

definition decodeString :: "bytes \<Rightarrow> error + (string \<times> bytes)" where
  "decodeString buf =
     (case decodeBytes buf of
        Inl err \<Rightarrow> Inl err
      | Inr (bts, rest) \<Rightarrow> Inr (map char_of_byte bts, rest))"

text \<open>
  \<open>requestPayload\<close>. A Go slice may be \<open>nil\<close>, which the code tells apart from an empty
  slice (\<open>r.dbKeys == nil\<close>, \<open>values != nil\<close>, \<open>r.sig == nil\<close>, \<open>req.dbValues == nil\<close>):
  those three fields are options, \<open>None\<close> for \<open>nil\<close>.
\<close>

record requestPayload =
  dbKeys :: "string list option"
  dbValues :: "bytes list option"
  timestamp :: int64
  sig :: "bytes option"

text \<open>
  \<open>encodeKeysValuesAndTime\<close>: the buffer after the call and the error returned. The
  timestamp is written before the keys are checked.
\<close>

definition encodeKeysValuesAndTime ::
  "bytes \<Rightarrow> string list option \<Rightarrow> bytes list option \<Rightarrow> int64 \<Rightarrow> bytes \<times> error option" where
  "encodeKeysValuesAndTime buf keys vals t =
     (let buf1 = buf @ encode_int64 t in
      case keys of
        None \<Rightarrow> (buf1, Some (Errorf ''No keys to encode''))
      | Some ks \<Rightarrow>
          (let buf2 = buf1 @ encode_uint32 (of_nat (length ks)) @ concat (map encodeString ks) in
           case vals of
             Some vs \<Rightarrow>
               (buf2 @ encode_uint32 (of_nat (length vs)) @ concat (map encodeBytes vs), None)
           | None \<Rightarrow> (buf2 @ encode_uint32 0, None)))"

text \<open>
  The two loops of \<open>decodeKeysValuesAndTime\<close>, \<open>for i := uint32(0); i < len; i++\<close>,
  each reading one element per round and returning at the first error.
\<close>

fun decodeN :: "(bytes \<Rightarrow> error + ('a \<times> bytes)) \<Rightarrow> nat \<Rightarrow> bytes \<Rightarrow> error + ('a list \<times> bytes)" where
  "decodeN f 0 buf = Inr ([], buf)"
| "decodeN f (Suc n) buf =
     (case f buf of
        Inl err \<Rightarrow> Inl err
      | Inr (x, rest) \<Rightarrow>
          (case decodeN f n rest of
             Inl err \<Rightarrow> Inl err
           | Inr (xs, rest') \<Rightarrow> Inr (x # xs, rest')))"

text \<open>
  \<open>decodeKeysValuesAndTime\<close>. Both slices come from \<open>make\<close>, so they are never \<open>nil\<close>,
  also when the count read is 0. The rest of the reader is returned with them.
\<close>

definition decodeKeysValuesAndTime ::
  "bytes \<Rightarrow> error + (string list \<times> bytes list \<times> int64 \<times> bytes)" where
  "decodeKeysValuesAndTime buf =
     (case decode_int64 buf of
        Inl err \<Rightarrow> Inl err
      | Inr (time, buf1) \<Rightarrow>
     (case decode_uint32 buf1 of
        Inl err \<Rightarrow> Inl err
      | Inr (len, buf2) \<Rightarrow>
     (case decodeN decodeString (unat len) buf2 of
        Inl err \<Rightarrow> Inl err
      | Inr (keys, buf3) \<Rightarrow>
     (case decode_uint32 buf3 of
        Inl err \<Rightarrow> Inl err
      | Inr (len', buf4) \<Rightarrow>
     (case decodeN decodeBytes (unat len') buf4 of
        Inl err \<Rightarrow> Inl err
      | Inr (vals, buf5) \<Rightarrow> Inr (keys, vals, time, buf5))))))"

definition encodeRequest :: "requestPayload \<Rightarrow> error + bytes" where
  "encodeRequest r =
     (if dbKeys r = None \<or> dbKeys r = Some [] then
        Inl (Errorf ''No keys in request. No point in making a request if there are no keys'')
      else
        (case sig r of
           None \<Rightarrow> Inl (Errorf ''Cannot encode a request without a signature attached'')
         | Some sg \<Rightarrow>
             (case encodeKeysValuesAndTime [] (dbKeys r) (dbValues r) (timestamp r) of
                (buf, Some err) \<Rightarrow> Inl err
              | (buf, None) \<Rightarrow> Inr (buf @ encodeBytes sg))))"

text \<open>
  \<open>decodeRequest\<close>. The validator is the interface \<open>RequestValidator\<close>: its \<open>Verify\<close>
  reads and updates the validator's own state \<open>'s\<close>, and \<open>keccak\<close> is
  \<open>crypto.Keccak256\<close>. The result is the payload or the error, with the validator's
  state after the call.
\<close>

definition decodeRequest ::
  "(bytes \<Rightarrow> bytes) \<Rightarrow> (bytes \<Rightarrow> int64 \<Rightarrow> bytes \<Rightarrow> 's \<Rightarrow> error + 's) \<Rightarrow> bytes \<Rightarrow> 's
     \<Rightarrow> (error + requestPayload) \<times> 's" where
  "decodeRequest keccak verify data st =
     (case decodeKeysValuesAndTime data of
        Inl err \<Rightarrow> (Inl err, st)
      | Inr (keys, vals, time, buf) \<Rightarrow>
          if length keys = 0 then (Inl (Errorf ''No dbKeys in incoming request''), st)
          else
            (case decodeBytes buf of
               Inl err \<Rightarrow> (Inl err, st)
             | Inr (sg, rest) \<Rightarrow>
                 (case encodeKeysValuesAndTime [] (Some keys) (Some vals) time of
                    (hBuf, Some err) \<Rightarrow> (Inl err, st)
                  | (hBuf, None) \<Rightarrow>
                      (case verify (keccak hBuf) time sg st of
                         Inl err \<Rightarrow> (Inl err, st)
                       | Inr st' \<Rightarrow>
                           (Inr \<lparr>dbKeys = Some keys, dbValues = Some vals,
                                 timestamp = time, sig = Some sg\<rparr>, st')))))"

section \<open>pkg/db: the data server (\<open>remoteImpl\<close>)\<close>

text \<open>
  \<open>lru.ARCCache\<close> of \<open>github.com/hashicorp/golang-lru\<close>, created with \<open>lru.NewARC(50)\<close>, is
  used through \<open>Contains\<close> and \<open>Add\<close> only. It is the list of the keys it holds, newest
  first; a key just added is held. Which key the library evicts when the cache is full is
  its own policy: here the oldest goes.
\<close>

type_synonym ARCCache = "int64 list"

definition ARC_Contains :: "ARCCache \<Rightarrow> int64 \<Rightarrow> bool" where
  "ARC_Contains cache key = (key \<in> set cache)"

definition ARC_Add :: "ARCCache \<Rightarrow> int64 \<Rightarrow> ARCCache" where
  "ARC_Add cache key = take 50 (key # removeAll key cache)"

text \<open>
  \<open>remoteImpl\<close>, the fields the server side reads. A Go map is an association list
  with one entry per key, read with \<open>map_of\<close> and written with \<open>AList.update\<close>:
  \<open>whitelist\<close> is a \<open>map[string]bool\<close>, whose keys \<open>hasAddressPrefix\<close> ranges over;
  \<open>wlHistory\<close> maps an address to its cache (a missing entry reads as a nil pointer);
  \<open>localDB\<close> is the store, \<open>None\<close> for a nil instance.
\<close>

record 'd remoteImpl =
  whitelist :: "(string \<times> bool) list"
  wlHistory :: "(string \<times> ARCCache) list"
  localDB :: "'d option"

text \<open>
  What the server calls but does not define: \<open>crypto.Keccak256\<close>; the recovery of the
  signer, \<open>strings.ToLower(crypto.PubkeyToAddress(*pubKey).Hex())\<close> for the key that
  \<open>crypto.SigToPub(hash, sig)\<close> returns, or its error; \<open>isKnownKey\<close> of package \<open>db\<close>
  (not in the sources at hand); and the methods \<open>Put\<close> and \<open>Get\<close> of the interface \<open>DB\<close>
  over a store of type \<open>'d\<close>. \<open>Get\<close> returns \<open>None\<close> for a nil result.
\<close>

record 'd env =
  Keccak256 :: "bytes \<Rightarrow> bytes"
  SigToAddress :: "bytes \<Rightarrow> bytes \<Rightarrow> error + string"
  isKnownKey :: "string \<Rightarrow> bool"
  DB_Put :: "string \<Rightarrow> bytes \<Rightarrow> 'd \<Rightarrow> error + 'd"
  DB_Get :: "string \<Rightarrow> 'd \<Rightarrow> error + bytes option"

text \<open>\<open>err.Error()\<close>: the message of an error; a wrapped error prints as "msg: cause".\<close>

fun Error :: "error \<Rightarrow> string" where
  "Error (Errorf msg) = msg"
| "Error (Wrapped e msg) = msg @ '': '' @ Error e"

text \<open>The elements of a slice that may be nil: \<open>len\<close> and \<open>range\<close> read nil as empty.\<close>

fun elems :: "'a list option \<Rightarrow> 'a list" where
  "elems None = []"
| "elems (Some xs) = xs"

text \<open>\<open>i.whitelist[ashex]\<close>: \<open>false\<close> for a key that is not in the map.\<close>

definition whitelisted :: "'d remoteImpl \<Rightarrow> string \<Rightarrow> bool" where
  "whitelisted i ashex = (case map_of (whitelist i) ashex of None \<Rightarrow> False | Some b \<Rightarrow> b)"

text \<open>\<open>hasAddressPrefix\<close>: \<open>for k := range i.whitelist\<close>, over every key of the map.\<close>

fun anyPrefix :: "string list \<Rightarrow> string \<Rightarrow> bool" where
  "anyPrefix [] key = False"
| "anyPrefix (k # ks) key = (if prefix k key then True else anyPrefix ks key)"

definition hasAddressPrefix :: "'d remoteImpl \<Rightarrow> string \<Rightarrow> bool" where
  "hasAddressPrefix i key = anyPrefix (map fst (whitelist i)) key"

text \<open>
  Time. An instant is its number of nanoseconds since the Unix epoch, which is what
  \<open>time.Now()\<close> returns, and \<open>t.After(u)\<close> is \<open>t > u\<close>. The sum
  \<open>timestamp+_validityThreshold\<close> is an \<open>int64\<close> sum: it wraps. \<open>time.Unix(sec, 0)\<close> of
  Go's package \<open>time\<close> keeps \<open>sec + unixToInternal\<close>, the seconds since year 1, in an
  \<open>int64\<close>, which wraps as well: the instant it stands for is that many seconds after
  year 1.
\<close>

definition validityThreshold :: int64 where
  "validityThreshold = 2"

definition unixToInternal :: int64 where
  "unixToInternal = 62135596800"

definition time_Unix :: "int64 \<Rightarrow> int" where
  "time_Unix sec = (sint (sec + unixToInternal) - sint unixToInternal) * 1000000000"

definition After :: "int \<Rightarrow> int \<Rightarrow> bool" where
  "After t u = (t > u)"

text \<open>
  \<open>remoteImpl.Verify\<close>, at the instant \<open>now\<close>. An error leaves the server as it was; on
  success the timestamp has been added to the signer's cache.
\<close>

definition Verify ::
  "(bytes \<Rightarrow> bytes \<Rightarrow> error + string) \<Rightarrow> int \<Rightarrow> bytes \<Rightarrow> int64 \<Rightarrow> bytes \<Rightarrow> 'd remoteImpl
     \<Rightarrow> error + 'd remoteImpl" where
  "Verify sigToAddress now hash ts sg i =
     (case sigToAddress hash sg of
        Inl err \<Rightarrow> Inl err
      | Inr ashex \<Rightarrow>
          if \<not> whitelisted i ashex then Inl (Errorf ''Unauthorized'')
          else
            (case map_of (wlHistory i) ashex of
               None \<Rightarrow> Inl (Errorf ''No history found for address'')
             | Some cache \<Rightarrow>
                 if ARC_Contains cache ts then
                   (if After now (time_Unix (ts + validityThreshold)) then
                      Inl (Errorf ''Request expired'')
                    else Inr (i\<lparr>wlHistory := AList.update ashex (ARC_Add cache ts) (wlHistory i)\<rparr>))
                 else Inr (i\<lparr>wlHistory := AList.update ashex (ARC_Add cache ts) (wlHistory i)\<rparr>)))"

text \<open>
  Modelled from the spec: \<open>errorResponse\<close>, \<open>encodeResponse\<close> and \<open>responsePayload\<close> are not
  in the sources at hand. A response carries entries and an error message (spec 4.5);
  it is kept before encoding, as the payload each of the two calls is given: the message
  for \<open>errorResponse\<close>, the \<open>outMap\<close> (a map, so an association list) for the
  successful \<open>encodeResponse\<close>.
\<close>

datatype response =
    is_error: errorResponse (errorMsg: string)
  | okResponse (dbVals: "(string \<times> bytes) list")

text \<open>
  The loop \<open>for idx, k := range req.dbKeys\<close> of the write branch: the message of the
  error response it returns with, if any, and the store it leaves. It runs only after
  \<open>len(req.dbKeys) == len(req.dbValues)\<close>, so \<open>req.dbValues[idx]\<close> is in range.
\<close>

fun writeLoop ::
  "'d env \<Rightarrow> 'd remoteImpl \<Rightarrow> bytes list \<Rightarrow> nat \<Rightarrow> string list \<Rightarrow> 'd \<Rightarrow> string option \<times> 'd" where
  "writeLoop E i vals idx [] d = (None, d)"
| "writeLoop E i vals idx (k # ks) d =
     (if \<not> hasAddressPrefix i k then
        (Some ''All remote data storage request keys must be prefixed with miner public Ethereum address'', d)
      else
        (case DB_Put E k (vals ! idx) d of
           Inl err \<Rightarrow> (Some (Error err), d)
         | Inr d' \<Rightarrow> writeLoop E i vals (Suc idx) ks d'))"

text \<open>The loop \<open>for _, k := range req.dbKeys\<close> that fills \<open>outMap\<close>, and the response.\<close>

fun readLoop ::
  "'d env \<Rightarrow> requestPayload \<Rightarrow> 'd \<Rightarrow> string list \<Rightarrow> (string \<times> bytes) list \<Rightarrow> response" where
  "readLoop E req d [] outMap = okResponse outMap"
| "readLoop E req d (k # ks) outMap =
     (if dbValues req = None \<and> \<not> isKnownKey E k then
        errorResponse (''Invalid lookup key: '' @ k)
      else
        (case DB_Get E k d of
           Inl err \<Rightarrow> errorResponse (Error err)
         | Inr None \<Rightarrow> readLoop E req d ks outMap
         | Inr (Some bts) \<Rightarrow> readLoop E req d ks (AList.update k bts outMap)))"

text \<open>
  \<open>remoteImpl.IncomingRequest\<close>, at the instant \<open>now\<close>: the response and the server after
  the call. \<open>decodeRequest\<close> returns a payload whenever it returns no error, so the test
  \<open>req == nil\<close> has no branch here. The locks are not modelled: one request at a time.
\<close>

definition IncomingRequest ::
  "'d env \<Rightarrow> int \<Rightarrow> bytes \<Rightarrow> 'd remoteImpl \<Rightarrow> response \<times> 'd remoteImpl" where
  "IncomingRequest E now data i =
     (case decodeRequest (Keccak256 E) (Verify (SigToAddress E) now) data i of
        (Inl err, i1) \<Rightarrow> (errorResponse (Error err), i1)
      | (Inr req, i1) \<Rightarrow>
          if dbKeys req = None then (errorResponse ''No keys found in request!'', i1)
          else
            (case localDB i1 of
               None \<Rightarrow> (errorResponse ''Missing localDB instance!'', i1)
             | Some d \<Rightarrow>
                 if dbValues req \<noteq> None \<and> length (elems (dbValues req)) > 0 then
                   (if length (elems (dbKeys req)) \<noteq> length (elems (dbValues req)) then
                      (errorResponse ''Keys and values must have the same array dimensions'', i1)
                    else
                      (case writeLoop E i1 (elems (dbValues req)) 0 (elems (dbKeys req)) d of
                         (Some msg, d') \<Rightarrow> (errorResponse msg, i1\<lparr>localDB := Some d'\<rparr>)
                       | (None, d') \<Rightarrow>
                           (readLoop E req d' (elems (dbKeys req)) [],
                            i1\<lparr>localDB := Some d'\<rparr>)))
                 else (readLoop E req d (elems (dbKeys req)) [], i1)))"

text \<open>
  A store and a signature scheme to run the server on. The store keeps its writes as a
  list, newest first, and never fails. The signature of a request is the signer's address
  spelled in bytes, which \<open>SigToAddress\<close> reads back, and the hash is the hashed bytes
  themselves; the only known key is \<open>current_challenge\<close>. Two miners are whitelisted, each
  with an empty history, and the store holds one entry under a key that is no known key.
\<close>

definition listDB_Put :: "string \<Rightarrow> bytes \<Rightarrow> (string \<times> bytes) list \<Rightarrow> error + (string \<times> bytes) list" where
  "listDB_Put k v d = Inr ((k, v) # d)"

definition listDB_Get :: "string \<Rightarrow> (string \<times> bytes) list \<Rightarrow> error + bytes option" where
  "listDB_Get k d = Inr (map_of d k)"

definition testEnv :: "(string \<times> bytes) list env" where
  "testEnv =
     \<lparr>Keccak256 = (\<lambda>b. b),
      SigToAddress = (\<lambda>hash sg. Inr (map char_of_byte sg)),
      isKnownKey = (\<lambda>k. k = ''current_challenge''),
      DB_Put = listDB_Put,
      DB_Get = listDB_Get\<rparr>"

definition minerA :: string where
  "minerA = ''0x1111111111111111111111111111111111111111''"

definition minerB :: string where
  "minerB = ''0x2222222222222222222222222222222222222222''"

definition testServer :: "(string \<times> bytes) list remoteImpl" where
  "testServer =
     \<lparr>whitelist = [(minerA, True), (minerB, True)],
      wlHistory = [(minerA, []), (minerB, [])],
      localDB = Some [(''private_key'', [7])]\<rparr>"

text \<open>The bytes a client sends for a payload: \<open>encodeRequest\<close>, as \<open>BatchGet\<close> and \<open>BatchPut\<close> do.\<close>

definition wire :: "requestPayload \<Rightarrow> bytes" where
  "wire r = (case encodeRequest r of Inl err \<Rightarrow> [] | Inr data \<Rightarrow> data)"

text \<open>A read of one key by miner A, signed at second 1000.\<close>

definition readRequest :: "string \<Rightarrow> requestPayload" where
  "readRequest key =
     \<lparr>dbKeys = Some [key], dbValues = None, timestamp = 1000,
      sig = Some (map byte_of_char minerA)\<rparr>"

text \<open>A write of the given keys and values by miner A, signed at second 1000.\<close>

definition writeRequest :: "string list \<Rightarrow> bytes list \<Rightarrow> requestPayload" where
  "writeRequest keys vals =
     \<lparr>dbKeys = Some keys, dbValues = Some vals, timestamp = 1000,
      sig = Some (map byte_of_char minerA)\<rparr>"

text \<open>
  The successive \<open>Put\<close>s of a list of pairs, in order: the store after them, or \<open>None\<close>
  when one of them fails. It states what "the pairs written" are in the results below.
\<close>

fun puts :: "'d env \<Rightarrow> (string \<times> bytes) list \<Rightarrow> 'd \<Rightarrow> 'd option" where
  "puts E [] d = Some d"
| "puts E ((k, v) # kvs) d =
     (case DB_Put E k v d of Inl err \<Rightarrow> None | Inr d' \<Rightarrow> puts E kvs d')"

section \<open>pkg/util/httpRetriever.go\<close>

record HTTPFetchRequest =
  Method :: int
  QueryURL :: string
  Payload :: bytes
  Timeout :: int

definition GET :: int where
  "GET = 1"

definition POST :: int where
  "POST = 2"

text \<open>
  The network. An attempt ends with an error of the transport or with a response (status
  code and body read). \<open>http_Get\<close> and \<open>http_Post\<close> give, for the attempt of a given
  number, how long it takes in nanoseconds and how it ends.
\<close>

datatype http_result =
    TransportError error
  | HTTPResponse int bytes

record network =
  http_Get :: "nat \<Rightarrow> string \<Rightarrow> nat \<times> http_result"
  http_Post :: "nat \<Rightarrow> string \<Rightarrow> string \<Rightarrow> bytes \<Rightarrow> nat \<times> http_result"

definition attempt :: "network \<Rightarrow> HTTPFetchRequest \<Rightarrow> nat \<Rightarrow> nat \<times> http_result" where
  "attempt net req n =
     (if Method req = GET then http_Get net n (QueryURL req)
      else http_Post net n (QueryURL req) ''application/json'' (Payload req))"

definition sleep500ms :: int where
  "sleep500ms = 500000000"

text \<open>
  \<open>_recReq\<close>, for the attempt number \<open>n\<close> started at the instant \<open>now\<close> (nanoseconds).
  \<open>time.Now()\<close> after the attempt is \<open>now\<close> plus its duration; a retry starts
  \<open>time.Sleep(500 * time.Millisecond)\<close> later. The recursion ends because every retry
  starts at least half a second later and none starts after the expiration.
\<close>

function recReq :: "network \<Rightarrow> HTTPFetchRequest \<Rightarrow> int \<Rightarrow> nat \<Rightarrow> int \<Rightarrow> error + bytes" where
  "recReq net req expiration n now =
     (case attempt net req n of
        (dur, TransportError err) \<Rightarrow>
          if After (now + int dur) expiration then Inl err
          else recReq net req expiration (Suc n) (now + int dur + sleep500ms)
      | (dur, HTTPResponse statusCode data) \<Rightarrow>
          if statusCode < 200 \<or> statusCode > 299 then
            (if After (now + int dur) expiration then
               Inl (Errorf ''giving up fetch request after request timeout: %d'')
             else recReq net req expiration (Suc n) (now + int dur + sleep500ms))
          else Inr data)"
  by pat_completeness auto
termination
  by (relation "measure (\<lambda>(net, req, expiration, n, now). nat (expiration + 1 - now))")
     (auto simp: After_def sleep500ms_def)

definition HTTPWithRetries :: "network \<Rightarrow> HTTPFetchRequest \<Rightarrow> int \<Rightarrow> error + bytes" where
  "HTTPWithRetries net req now = recReq net req (now + Timeout req) 0 now"

section \<open>The \<open>mine\<close> command (main)\<close>

text \<open>
  What a command does in the end: it exits with a code after printing to stderr, it
  panics, or it goes on with the miner started.
\<close>

datatype outcome =
    Exited int string
  | Panicked string
  | MinerStarted

text \<open>
  \<open>ExitOnError\<close>: for a non-nil error, the text printed to stderr and \<open>cli.Exit(-1)\<close>, which
  ends the command; \<open>None\<close> when it returns.
\<close>

definition ExitOnError :: "error option \<Rightarrow> string \<Rightarrow> outcome option" where
  "ExitOnError err operation =
     (case err of
        None \<Rightarrow> None
      | Some e \<Rightarrow> Some (Exited (- 1) (operation @ '' failed: '' @ Error e @ [CHR 0x0A])))"

text \<open>
  The action of \<open>mineCmd\<close> from "Start miner" to \<open>miner.Start\<close>. \<open>get\<close> is what
  \<open>DB.Get(db.DisputeStatusKey)\<close> returns (the value, \<open>None\<close> for nil, and the error);
  \<open>DecodeBig\<close> is \<open>hexutil.DecodeBig\<close>, which returns a nil \<open>*big.Int\<close> with every error;
  \<open>create\<close> is the error of \<open>ops.CreateMiningManager\<close>. The error of \<open>Get\<close> is logged and
  the error of \<open>DecodeBig\<close> is dropped; \<open>status.Cmp\<close> on a nil \<open>status\<close> reads through the
  nil pointer.
\<close>

definition mineCmd ::
  "(string \<Rightarrow> error + int) \<Rightarrow> bytes option \<times> error option \<Rightarrow> error option \<Rightarrow> outcome" where
  "mineCmd DecodeBig get create =
     (case get of
        (v, err) \<Rightarrow>
          (case DecodeBig (map char_of_byte (elems v)) of
             Inl decodeErr \<Rightarrow>
               Panicked ''runtime error: invalid memory address or nil pointer dereference''
           | Inr status \<Rightarrow>
               (case (if status \<noteq> 1 then
                        ExitOnError (Some (Errorf ''miner is not able to mine with current status''))
                          ''checking miner''
                      else None) of
                  Some out \<Rightarrow> out
                | None \<Rightarrow>
                    (case ExitOnError create ''creating miner'' of
                       Some out \<Rightarrow> out
                     | None \<Rightarrow> MinerStarted))))"

text \<open>
  A decoder to run the command on: \<open>0x0\<close> and \<open>0x1\<close> decode to 0 and 1 and the empty
  string is an error, as with \<open>hexutil.DecodeBig\<close>; other inputs are not used below.
\<close>

definition testDecodeBig :: "string \<Rightarrow> error + int" where
  "testDecodeBig s =
     (if s = ''0x0'' then Inr 0
      else if s = ''0x1'' then Inr 1
      else Inl (Errorf ''empty hex string''))"

text \<open>A validator that accepts every request and has no state, to run the codec alone.\<close>

definition acceptAll :: "bytes \<Rightarrow> int64 \<Rightarrow> bytes \<Rightarrow> unit \<Rightarrow> error + unit" where
  "acceptAll hash ts sg st = Inr st"

text \<open>
  Two networks and a request to run the fetch on: one answers 204 with a body at once;
  the other answers a POST with 503 first and with 200 and a body from then on, each
  attempt taking a tenth of a second. The request is a POST with a timeout of 10 seconds.
\<close>

definition net204 :: network where
  "net204 =
     \<lparr>http_Get = (\<lambda>n url. (0, HTTPResponse 204 [42])),
      http_Post = (\<lambda>n url contentType body. (0, HTTPResponse 204 [42]))\<rparr>"

definition net503then200 :: network where
  "net503then200 =
     \<lparr>http_Get = (\<lambda>n url. (0, TransportError (Errorf ''unsupported protocol scheme''))),
      http_Post = (\<lambda>n url contentType body.
         if n = 0 then (100000000, HTTPResponse 503 []) else (100000000, HTTPResponse 200 [42]))\<rparr>"

definition postRequest :: HTTPFetchRequest where
  "postRequest = \<lparr>Method = POST, QueryURL = ''http://localhost:5000'', Payload = [1, 2, 3],
                  Timeout = 10000000000\<rparr>"

section \<open>Configuration validation\<close>

text \<open>
  C8. The claim: \<open>validateConfig\<close> accepts exactly when the public address decodes to 20
  bytes, \<open>NODE_URL\<close> is set, the private key decodes to 32 bytes and the gas multiplier is
  in [0, 20]. On the code, a public address that is valid hex of another length is
  accepted: the error returned is \<open>Wrapf\<close> of a nil error, which is nil. Here the address
  is one byte, \<open>NODE_URL\<close> and the private key are unset and the gas multiplier is 100.
\<close>

theorem validateConfig_accepts_short_address:
  "validateConfig (\<lambda>name. [])
     \<lparr>PublicAddress = ''ab'', GasMultiplier = 100, ServerWhitelist = []\<rparr> = None"
  by (simp add: validateConfig_def fromHexChar_def)

text \<open>\<open>ParseConfigBytes\<close> wraps the error of the validation, so it returns nil as well.\<close>

theorem validateConfig_accepts_short_address_witness:
  "Wrapf (validateConfig (\<lambda>name. [])
            \<lparr>PublicAddress = ''ab'', GasMultiplier = 100, ServerWhitelist = []\<rparr>)
     ''config validation'' = None"
  using validateConfig_accepts_short_address by simp

section \<open>The wire codec: decoding what was encoded\<close>

lemma u32_join:
  "push_bit 24 (ucast (ucast (drop_bit 24 n :: 32 word) :: 8 word)) OR
   push_bit 16 (ucast (ucast (drop_bit 16 n) :: 8 word)) OR
   push_bit 8 (ucast (ucast (drop_bit 8 n) :: 8 word)) OR
   ucast (ucast n :: 8 word) = (n :: 32 word)"
  apply (rule bit_word_eqI)
  subgoal for k
    apply (subgoal_tac "k < 8 \<or> (\<exists>j<8. k = 8 + j) \<or> (\<exists>j<8. k = 16 + j) \<or> (\<exists>j<8. k = 24 + j)")
     apply (elim disjE exE conjE; simp add: bit_simps)
    apply (simp; presburger)
    done
  done

lemma i64_join:
  "push_bit 56 (ucast (ucast (drop_bit 56 n :: 64 word) :: 8 word)) OR
   push_bit 48 (ucast (ucast (drop_bit 48 n) :: 8 word)) OR
   push_bit 40 (ucast (ucast (drop_bit 40 n) :: 8 word)) OR
   push_bit 32 (ucast (ucast (drop_bit 32 n) :: 8 word)) OR
   push_bit 24 (ucast (ucast (drop_bit 24 n) :: 8 word)) OR
   push_bit 16 (ucast (ucast (drop_bit 16 n) :: 8 word)) OR
   push_bit 8 (ucast (ucast (drop_bit 8 n) :: 8 word)) OR
   ucast (ucast n :: 8 word) = (n :: 64 word)"
  apply (rule bit_word_eqI)
  subgoal for k
    apply (subgoal_tac "k < 8 \<or> (\<exists>j<8. k = 8 + j) \<or> (\<exists>j<8. k = 16 + j) \<or> (\<exists>j<8. k = 24 + j)
        \<or> (\<exists>j<8. k = 32 + j) \<or> (\<exists>j<8. k = 40 + j) \<or> (\<exists>j<8. k = 48 + j) \<or> (\<exists>j<8. k = 56 + j)")
     apply (elim disjE exE conjE; simp add: bit_simps)
    apply (simp; presburger)
    done
  done

lemma decode_encode_uint32: "decode_uint32 (encode_uint32 n @ rest) = Inr (n, rest)"
  by (simp add: encode_uint32_def u32_join)

lemma decode_encode_int64: "decode_int64 (encode_int64 n @ rest) = Inr (n, rest)"
  by (simp add: encode_int64_def i64_join)

lemma char_of_byte_of_char: "char_of_byte (byte_of_char c) = c"
  by (simp add: char_of_byte_def byte_of_char_def unat_of_nat)

lemma unat_len32: "n < 2 ^ 32 \<Longrightarrow> unat (of_nat n :: 32 word) = n"
  by (simp add: unat_of_nat)

lemma decode_encodeBytes:
  "length bts < 2 ^ 32 \<Longrightarrow> decodeBytes (encodeBytes bts @ rest) = Inr (bts, rest)"
  by (simp add: decodeBytes_def encodeBytes_def decode_encode_uint32 unat_len32)

lemma decode_encodeString:
  "length s < 2 ^ 32 \<Longrightarrow> decodeString (encodeString s @ rest) = Inr (s, rest)"
  by (simp add: decodeString_def encodeString_def decode_encodeBytes comp_def
        char_of_byte_of_char)

lemma decodeN_strings:
  "\<forall>k \<in> set ks. length k < 2 ^ 32 \<Longrightarrow>
   decodeN decodeString (length ks) (concat (map encodeString ks) @ rest) = Inr (ks, rest)"
  by (induction ks) (simp_all add: decode_encodeString)

lemma decodeN_bytes:
  "\<forall>v \<in> set vs. length v < 2 ^ 32 \<Longrightarrow>
   decodeN decodeBytes (length vs) (concat (map encodeBytes vs) @ rest) = Inr (vs, rest)"
  by (induction vs) (simp_all add: decode_encodeBytes)

lemma decode_encodeKeysValuesAndTime:
  assumes "length ks < 2 ^ 32" "\<forall>k \<in> set ks. length k < 2 ^ 32"
    and "length (elems vals) < 2 ^ 32" "\<forall>v \<in> set (elems vals). length v < 2 ^ 32"
  shows "decodeKeysValuesAndTime (fst (encodeKeysValuesAndTime [] (Some ks) vals t) @ rest)
           = Inr (ks, elems vals, t, rest)"
  using assms
  by (cases vals)
     (simp_all add: decodeKeysValuesAndTime_def encodeKeysValuesAndTime_def Let_def
        decode_encode_int64 decode_encode_uint32 unat_len32 decodeN_strings decodeN_bytes
        decodeN_bytes [of "[]", simplified])

lemma encodeKeysValuesAndTime_nil_as_empty:
  "encodeKeysValuesAndTime buf (Some ks) (Some (elems vals)) t
     = encodeKeysValuesAndTime buf (Some ks) vals t"
  by (cases vals) (simp_all add: encodeKeysValuesAndTime_def Let_def)

lemma encodeKeysValuesAndTime_ok:
  "snd (encodeKeysValuesAndTime buf (Some ks) vals t) = None"
  by (cases vals) (simp_all add: encodeKeysValuesAndTime_def Let_def)

text \<open>
  C5, as amended. For a payload with a non-empty key list and a non-nil signature, whose
  counts and lengths fit the \<open>uint32\<close> they are written in, and which the validator
  accepts: \<open>encodeRequest\<close> succeeds, and \<open>decodeRequest\<close> of its bytes returns the same
  keys in the same order, the same timestamp, the same signature and the same values,
  except that a nil values list comes back as an empty list that is not nil.
\<close>

theorem decodeRequest_encodeRequest:
  assumes wf: "dbKeys r = Some ks" "ks \<noteq> []" "sig r = Some sg"
    and len: "length ks < 2 ^ 32" "\<forall>k \<in> set ks. length k < 2 ^ 32"
      "length (elems (dbValues r)) < 2 ^ 32" "\<forall>v \<in> set (elems (dbValues r)). length v < 2 ^ 32"
      "length sg < 2 ^ 32"
    and ok: "verify (keccak (fst (encodeKeysValuesAndTime [] (dbKeys r) (dbValues r) (timestamp r))))
               (timestamp r) sg st = Inr st'"
  shows "\<exists>data. encodeRequest r = Inr data \<and>
           decodeRequest keccak verify data st
             = (Inr (r\<lparr>dbValues := Some (elems (dbValues r))\<rparr>), st')"
proof -
  obtain buf where buf: "encodeKeysValuesAndTime [] (Some ks) (dbValues r) (timestamp r) = (buf, None)"
    using encodeKeysValuesAndTime_ok [of "[]" ks "dbValues r" "timestamp r"]
    by (cases "encodeKeysValuesAndTime [] (Some ks) (dbValues r) (timestamp r)") simp
  have enc: "encodeRequest r = Inr (buf @ encodeBytes sg)"
    using wf buf by (simp add: encodeRequest_def)
  have dec: "decodeKeysValuesAndTime (buf @ encodeBytes sg)
               = Inr (ks, elems (dbValues r), timestamp r, encodeBytes sg)"
    using decode_encodeKeysValuesAndTime [OF len(1-4), of "timestamp r" "encodeBytes sg"] buf
    by simp
  have sg: "decodeBytes (encodeBytes sg) = Inr (sg, [])"
    using decode_encodeBytes [OF len(5), of "[]"] by simp
  have hbuf: "encodeKeysValuesAndTime [] (Some ks) (Some (elems (dbValues r))) (timestamp r) = (buf, None)"
    using buf by (simp add: encodeKeysValuesAndTime_nil_as_empty)
  have v: "verify (keccak buf) (timestamp r) sg st = Inr st'"
    using ok wf buf by simp
  have r: "\<lparr>dbKeys = Some ks, dbValues = Some (elems (dbValues r)), timestamp = timestamp r,
            sig = Some sg\<rparr> = r\<lparr>dbValues := Some (elems (dbValues r))\<rparr>"
    using wf by (cases r) simp
  have "decodeRequest keccak verify (buf @ encodeBytes sg) st
          = (Inr (r\<lparr>dbValues := Some (elems (dbValues r))\<rparr>), st')"
    using wf(2) by (simp add: decodeRequest_def dec sg hbuf v r)
  with enc show ?thesis by blast
qed

text \<open>A write of two pairs by miner A: it comes back as it was sent.\<close>

theorem decodeRequest_encodeRequest_witness:
  "\<exists>data. encodeRequest (writeRequest [minerA @ ''-a'', minerA @ ''-b''] [[1], [2, 3]]) = Inr data \<and>
      decodeRequest (\<lambda>b. b) acceptAll data ()
        = (Inr (writeRequest [minerA @ ''-a'', minerA @ ''-b''] [[1], [2, 3]]), ())"
proof -
  let ?r = "writeRequest [minerA @ ''-a'', minerA @ ''-b''] [[1], [2, 3]]"
  have wf: "dbKeys ?r = Some [minerA @ ''-a'', minerA @ ''-b'']"
    "[minerA @ ''-a'', minerA @ ''-b''] \<noteq> []" "sig ?r = Some (map byte_of_char minerA)"
    by (simp_all add: writeRequest_def)
  have len: "length [minerA @ ''-a'', minerA @ ''-b''] < 2 ^ 32"
    "\<forall>k \<in> set [minerA @ ''-a'', minerA @ ''-b'']. length k < 2 ^ 32"
    "length (elems (dbValues ?r)) < 2 ^ 32" "\<forall>v \<in> set (elems (dbValues ?r)). length v < 2 ^ 32"
    "length (map byte_of_char minerA) < 2 ^ 32"
    by (simp_all add: writeRequest_def minerA_def)
  have ok: "acceptAll ((\<lambda>b. b) (fst (encodeKeysValuesAndTime [] (dbKeys ?r) (dbValues ?r) (timestamp ?r))))
              (timestamp ?r) (map byte_of_char minerA) () = Inr ()"
    by (simp add: acceptAll_def)
  have same: "?r\<lparr>dbValues := Some (elems (dbValues ?r))\<rparr> = ?r"
    by (simp add: writeRequest_def)
  from decodeRequest_encodeRequest [where verify = acceptAll and keccak = "\<lambda>b. b", OF wf len ok]
  show ?thesis by (simp only: same)
qed

text \<open>
  The claim as stated fails for a read, whose values list is nil: the payload is
  well-formed and is encoded, and what is decoded from its bytes has an empty values list
  that is not nil, so it is not the payload that was encoded.
\<close>

theorem decodeRequest_encodeRequest_counterexample:
  "encodeRequest (readRequest ''current_challenge'') = Inr (wire (readRequest ''current_challenge'')) \<and>
   fst (decodeRequest (\<lambda>b. b) acceptAll (wire (readRequest ''current_challenge'')) ())
     = Inr ((readRequest ''current_challenge'')\<lparr>dbValues := Some []\<rparr>) \<and>
   (readRequest ''current_challenge'')\<lparr>dbValues := Some []\<rparr> \<noteq> readRequest ''current_challenge''"
  by code_simp

section \<open>The data server: which requests are accepted\<close>

text \<open>
  A timestamp that the signer's history holds is accepted again, and added again, at
  every instant \<open>now\<close> that is not after the timestamp plus the validity threshold.
\<close>

lemma Verify_seen_timestamp_in_window:
  "S h sg = Inr a \<Longrightarrow> whitelisted i a \<Longrightarrow> map_of (wlHistory i) a = Some c \<Longrightarrow>
   ARC_Contains c ts \<Longrightarrow> \<not> After now (time_Unix (ts + validityThreshold)) \<Longrightarrow>
   Verify S now h ts sg i = Inr (i\<lparr>wlHistory := AList.update a (ARC_Add c ts) (wlHistory i)\<rparr>)"
  by (simp add: Verify_def)

text \<open>
  C1. The claim: a request whose timestamp is already in the signer's history is
  rejected, so the same bytes sent a second time inside the validity window get an error
  response and change nothing in the store. On the code a timestamp that the history
  holds is rejected only when \<open>now\<close> is after the timestamp plus the threshold. A write
  signed at second 1000 is served at second 1000, which puts the timestamp into miner A's
  history and the pair into the store; the same bytes sent again at second 1000.5, with
  the timestamp in the history, are served again, with a second \<open>Put\<close> of the pair.
\<close>

theorem replayed_request_served:
  "IncomingRequest testEnv 1000000000000 (wire (writeRequest [minerA @ ''-k''] [[1]])) testServer
     = (okResponse [(minerA @ ''-k'', [1])],
        testServer\<lparr>wlHistory := [(minerA, [1000]), (minerB, [])],
                   localDB := Some [(minerA @ ''-k'', [1]), (''private_key'', [7])]\<rparr>) \<and>
   IncomingRequest testEnv 1000500000000 (wire (writeRequest [minerA @ ''-k''] [[1]]))
       (testServer\<lparr>wlHistory := [(minerA, [1000]), (minerB, [])],
                   localDB := Some [(minerA @ ''-k'', [1]), (''private_key'', [7])]\<rparr>)
     = (okResponse [(minerA @ ''-k'', [1])],
        testServer\<lparr>wlHistory := [(minerA, [1000]), (minerB, [])],
                   localDB := Some [(minerA @ ''-k'', [1]), (minerA @ ''-k'', [1]),
                                    (''private_key'', [7])]\<rparr>)"
  by code_simp

text \<open>The second response is no error response.\<close>

theorem replayed_request_served_witness:
  "\<not> is_error (fst (IncomingRequest testEnv 1000500000000
                      (wire (writeRequest [minerA @ ''-k''] [[1]]))
                      (testServer\<lparr>wlHistory := [(minerA, [1000]), (minerB, [])],
                                 localDB := Some [(minerA @ ''-k'', [1]), (''private_key'', [7])]\<rparr>)))"
  using replayed_request_served by simp

text \<open>
  A timestamp that the signer's history does not hold is accepted at every instant
  \<open>now\<close>: its age is not looked at.
\<close>

lemma Verify_unseen_timestamp:
  "S h sg = Inr a \<Longrightarrow> whitelisted i a \<Longrightarrow> map_of (wlHistory i) a = Some c \<Longrightarrow>
   \<not> ARC_Contains c ts \<Longrightarrow>
   Verify S now h ts sg i = Inr (i\<lparr>wlHistory := AList.update a (ARC_Add c ts) (wlHistory i)\<rparr>)"
  by (simp add: Verify_def)

text \<open>
  C3. The claim: a request whose timestamp is more than the validity threshold before
  \<open>now\<close> is rejected, whether or not the timestamp has been seen. On the code the age is
  tested only for a timestamp that the signer's history already holds: a request signed at
  second 1000 and delivered for the first time at second 1003 is served.
\<close>

theorem expired_request_accepted:
  "fst (IncomingRequest testEnv 1003000000000 (wire (readRequest ''current_challenge'')) testServer)
     = okResponse []"
  by code_simp

theorem expired_request_accepted_witness:
  "\<not> is_error (fst (IncomingRequest testEnv 1003000000000
                      (wire (readRequest ''current_challenge'')) testServer))"
  using expired_request_accepted by simp

section \<open>The data server: reads\<close>

text \<open>
  C2. The claim: a read of a key outside the known keys is rejected. On the code the test
  is \<open>req.dbValues == nil && !isKnownKey(k)\<close>, and the values list of a decoded request is
  never nil (\<open>decodeKeysValuesAndTime\<close> builds it with \<open>make\<close>), so the test never
  rejects: a read of \<open>private_key\<close>, which is no known key, returns the stored value.
\<close>

theorem unknown_key_served:
  "\<not> isKnownKey testEnv ''private_key'' \<and>
   fst (IncomingRequest testEnv 1000000000000 (wire (readRequest ''private_key'')) testServer)
     = okResponse [(''private_key'', [7])]"
  by code_simp

theorem unknown_key_served_witness:
  "dbVals (fst (IncomingRequest testEnv 1000000000000 (wire (readRequest ''private_key'')) testServer))
     = [(''private_key'', [7])]"
  using unknown_key_served by simp

section \<open>The data server: writes\<close>

lemma Verify_keeps:
  "Verify S now h ts sg i = Inr i' \<Longrightarrow> whitelist i' = whitelist i \<and> localDB i' = localDB i"
  by (auto simp: Verify_def split: sum.splits if_splits option.splits)

lemma decodeRequest_payload:
  assumes "decodeRequest K V data st = (Inr req, st')"
  shows "\<exists>ks vs. dbKeys req = Some ks \<and> ks \<noteq> [] \<and> dbValues req = Some vs"
  using assms
  by (auto simp: decodeRequest_def split: sum.splits prod.splits if_splits option.splits)

lemma decodeRequest_Verify_keeps:
  assumes "decodeRequest K (Verify S now) data i = (Inr req, i1)"
  shows "whitelist i1 = whitelist i \<and> localDB i1 = localDB i"
  using assms
  by (auto simp: decodeRequest_def split: sum.splits prod.splits if_splits option.splits
      dest: Verify_keeps)

lemma hasAddressPrefix_whitelist:
  "whitelist i1 = whitelist i \<Longrightarrow> hasAddressPrefix i1 = hasAddressPrefix i"
  by (rule ext) (simp add: hasAddressPrefix_def)

lemma writeLoop_whitelist:
  "whitelist i1 = whitelist i \<Longrightarrow> writeLoop E i1 vals idx ks d = writeLoop E i vals idx ks d"
  by (induction ks arbitrary: idx d) (simp_all add: hasAddressPrefix_def split: sum.splits)

lemma writeLoop_sound:
  "writeLoop E i vals idx ks d = (r, d') \<Longrightarrow> idx + length ks \<le> length vals \<Longrightarrow>
   \<exists>n\<le>length ks. (\<forall>j<n. hasAddressPrefix i (ks ! j)) \<and>
      puts E (take n (zip ks (drop idx vals))) d = Some d' \<and>
      (r = None \<longleftrightarrow> n = length ks)"
proof (induction ks arbitrary: idx d)
  case Nil
  then show ?case by simp
next
  case (Cons k ks)
  from Cons.prems(2) have idx: "idx < length vals" by simp
  then have dr: "drop idx vals = vals ! idx # drop (Suc idx) vals"
    by (simp add: Cons_nth_drop_Suc)
  show ?case
  proof (cases "hasAddressPrefix i k")
    case False
    with Cons.prems(1) have "r \<noteq> None" "d' = d" by auto
    then show ?thesis by (intro exI [of _ 0]) simp
  next
    case True
    show ?thesis
    proof (cases "DB_Put E k (vals ! idx) d")
      case (Inl err)
      with True Cons.prems(1) have "r \<noteq> None" "d' = d" by auto
      then show ?thesis by (intro exI [of _ 0]) simp
    next
      case (Inr d1)
      with True Cons.prems(1) have "writeLoop E i vals (Suc idx) ks d1 = (r, d')" by simp
      from Cons.IH [OF this] Cons.prems(2)
      obtain n where n: "n \<le> length ks" "\<forall>j<n. hasAddressPrefix i (ks ! j)"
        "puts E (take n (zip ks (drop (Suc idx) vals))) d1 = Some d'"
        "r = None \<longleftrightarrow> n = length ks"
        by auto
      have "\<forall>j<Suc n. hasAddressPrefix i ((k # ks) ! j)"
        using n(2) True by (auto simp: less_Suc_eq_0_disj)
      moreover have "puts E (take (Suc n) (zip (k # ks) (drop idx vals))) d = Some d'"
        using n(3) Inr by (simp add: dr)
      ultimately show ?thesis
        using n(1,4) by (intro exI [of _ "Suc n"]) simp
    qed
  qed
qed

lemma writeLoop_rejects:
  "\<exists>k\<in>set ks. \<not> hasAddressPrefix i k \<Longrightarrow> fst (writeLoop E i vals idx ks d) \<noteq> None"
  by (induction ks arbitrary: idx d) (auto split: sum.splits)

lemma writeLoop_first_failure:
  "j < length ks \<Longrightarrow> idx + length ks \<le> length vals \<Longrightarrow>
   \<forall>m<j. hasAddressPrefix i (ks ! m) \<Longrightarrow>
   puts E (take j (zip ks (drop idx vals))) d = Some dj \<Longrightarrow>
   \<not> hasAddressPrefix i (ks ! j) \<or> isl (DB_Put E (ks ! j) (vals ! (idx + j)) dj) \<Longrightarrow>
   \<exists>msg. writeLoop E i vals idx ks d = (Some msg, dj)"
proof (induction ks arbitrary: idx d j)
  case Nil
  then show ?case by simp
next
  case (Cons k ks)
  from Cons.prems(2) have idx: "idx < length vals" by simp
  then have dr: "drop idx vals = vals ! idx # drop (Suc idx) vals"
    by (simp add: Cons_nth_drop_Suc)
  show ?case
  proof (cases j)
    case 0
    with Cons.prems(4,5) show ?thesis by (auto simp: isl_def)
  next
    case (Suc j')
    from Cons.prems(3) Suc have k: "hasAddressPrefix i k" by auto
    from Cons.prems(4) Suc obtain d1 where d1: "DB_Put E k (vals ! idx) d = Inr d1"
      and rest: "puts E (take j' (zip ks (drop (Suc idx) vals))) d1 = Some dj"
      by (auto simp: dr split: sum.splits)
    have "\<exists>msg. writeLoop E i vals (Suc idx) ks d1 = (Some msg, dj)"
    proof (rule Cons.IH [OF _ _ _ rest])
      show "j' < length ks" using Cons.prems(1) Suc by simp
      show "Suc idx + length ks \<le> length vals" using Cons.prems(2) by simp
      show "\<forall>m<j'. hasAddressPrefix i (ks ! m)" using Cons.prems(3) Suc by auto
      show "\<not> hasAddressPrefix i (ks ! j') \<or> isl (DB_Put E (ks ! j') (vals ! (Suc idx + j')) dj)"
        using Cons.prems(5) Suc by simp
    qed
    with k d1 show ?thesis by simp
  qed
qed

text \<open>
  What \<open>hasAddressPrefix\<close> computes: the key begins with some key of the whitelist map.
\<close>

lemma anyPrefix_iff: "anyPrefix ks key \<longleftrightarrow> (\<exists>a\<in>set ks. prefix a key)"
  by (induction ks) auto

lemma hasAddressPrefix_iff:
  "hasAddressPrefix i key \<longleftrightarrow> (\<exists>a\<in>fst ` set (whitelist i). prefix a key)"
  by (simp add: hasAddressPrefix_def anyPrefix_iff)

lemma write_keys_checked:
  assumes dec: "decodeRequest (Keccak256 E) (Verify (SigToAddress E) now) data i = (Inr req, i1)"
    and wr: "elems (dbValues req) \<noteq> []"
    and db: "localDB i = Some d"
    and res: "IncomingRequest E now data i = (resp, i2)"
  shows "(\<exists>n\<le>length (elems (dbKeys req)). \<exists>d'.
            (\<forall>j<n. hasAddressPrefix i (elems (dbKeys req) ! j)) \<and>
            puts E (take n (zip (elems (dbKeys req)) (elems (dbValues req)))) d = Some d' \<and>
            localDB i2 = Some d') \<and>
         ((\<exists>k\<in>set (elems (dbKeys req)). \<not> hasAddressPrefix i k) \<longrightarrow> is_error resp)"
proof -
  from decodeRequest_payload [OF dec] obtain ks vs where
    p: "dbKeys req = Some ks" "ks \<noteq> []" "dbValues req = Some vs" by blast
  from decodeRequest_Verify_keeps [OF dec] have
    k: "whitelist i1 = whitelist i" "localDB i1 = Some d" using db by simp_all
  from wr p have vs: "vs \<noteq> []" by simp
  show ?thesis
  proof (cases "length ks = length vs")
    case False
    with res dec p k vs have "resp = errorResponse ''Keys and values must have the same array dimensions''"
      "i2 = i1" by (simp_all add: IncomingRequest_def)
    with k show ?thesis by (simp add: p) (intro exI [of _ 0], simp)
  next
    case True
    obtain r d' where w: "writeLoop E i vs 0 ks d = (r, d')" by (cases "writeLoop E i vs 0 ks d")
    from writeLoop_sound [OF w] True obtain n where
      n: "n \<le> length ks" "\<forall>j<n. hasAddressPrefix i (ks ! j)"
         "puts E (take n (zip ks vs)) d = Some d'" by auto
    have i2: "localDB i2 = Some d'" and err: "r \<noteq> None \<longrightarrow> is_error resp"
      using res dec p k vs True w
      by (auto simp: IncomingRequest_def writeLoop_whitelist [OF k(1)] split: option.splits)
    have "(\<exists>k\<in>set ks. \<not> hasAddressPrefix i k) \<longrightarrow> r \<noteq> None"
      using writeLoop_rejects [of ks i E vs 0 d] w by auto
    with n i2 err show ?thesis by (auto simp: p)
  qed
qed

text \<open>
  C4, as amended. For a write request (at least one value) that passed \<open>decodeRequest\<close>,
  the store after the call is the store after the \<open>Put\<close>s of the first \<open>n\<close> pairs, for
  some \<open>n\<close>, and each of these \<open>n\<close> keys has a key of the whitelist map as a prefix:
  the address of some whitelisted miner, not necessarily of the signer. A write request
  with a key that has no key of the whitelist map as a prefix gets an error response.
\<close>

theorem write_keys_whitelisted_prefix:
  assumes dec: "decodeRequest (Keccak256 E) (Verify (SigToAddress E) now) data i = (Inr req, i1)"
    and wr: "elems (dbValues req) \<noteq> []"
    and db: "localDB i = Some d"
    and res: "IncomingRequest E now data i = (resp, i2)"
  shows "(\<exists>n\<le>length (elems (dbKeys req)). \<exists>d'.
            (\<forall>j<n. \<exists>a\<in>fst ` set (whitelist i). prefix a (elems (dbKeys req) ! j)) \<and>
            puts E (take n (zip (elems (dbKeys req)) (elems (dbValues req)))) d = Some d' \<and>
            localDB i2 = Some d') \<and>
         ((\<exists>k\<in>set (elems (dbKeys req)). \<forall>a\<in>fst ` set (whitelist i). \<not> prefix a k)
            \<longrightarrow> is_error resp)"
  using write_keys_checked [OF dec wr db res] by (simp add: hasAddressPrefix_iff)

lemma two_pairs_decoded:
  "decodeRequest (Keccak256 testEnv) (Verify (SigToAddress testEnv) 1000000000000)
     (wire (writeRequest [minerA @ ''-a'', ''other''] [[1], [2]])) testServer
   = (Inr (writeRequest [minerA @ ''-a'', ''other''] [[1], [2]]),
      testServer\<lparr>wlHistory := [(minerA, [1000]), (minerB, [])]\<rparr>)"
  by code_simp

lemma two_pairs_result:
  "IncomingRequest testEnv 1000000000000
     (wire (writeRequest [minerA @ ''-a'', ''other''] [[1], [2]])) testServer
   = (errorResponse ''All remote data storage request keys must be prefixed with miner public Ethereum address'',
      testServer\<lparr>wlHistory := [(minerA, [1000]), (minerB, [])],
                 localDB := Some [(minerA @ ''-a'', [1]), (''private_key'', [7])]\<rparr>)"
  by code_simp

text \<open>
  A write of two pairs by miner A, the second under a key with no address in front: the
  first pair is written, under a key that begins with a whitelisted address.
\<close>

theorem write_keys_whitelisted_prefix_witness:
  "\<exists>n\<le>length [minerA @ ''-a'', ''other''].
      (\<forall>j<n. \<exists>a\<in>fst ` set (whitelist testServer). prefix a ([minerA @ ''-a'', ''other''] ! j)) \<and>
      puts testEnv (take n (zip [minerA @ ''-a'', ''other''] [[1], [2]])) [(''private_key'', [7])]
        = Some [(minerA @ ''-a'', [1]), (''private_key'', [7])]"
proof -
  have wr: "elems (dbValues (writeRequest [minerA @ ''-a'', ''other''] [[1], [2]])) \<noteq> []"
    by (simp add: writeRequest_def)
  have db: "localDB testServer = Some [(''private_key'', [7])]"
    by (simp add: testServer_def)
  from write_keys_whitelisted_prefix [OF two_pairs_decoded wr db two_pairs_result, THEN conjunct1]
  show ?thesis by (simp add: writeRequest_def)
qed

text \<open>
  The claim as stated fails: miner A signs a write under a key that begins with the
  address of miner B and not with its own, and the pair is written.
\<close>

theorem other_miner_prefix_counterexample:
  "\<not> prefix minerA (minerB @ ''-k'') \<and>
   IncomingRequest testEnv 1000000000000 (wire (writeRequest [minerB @ ''-k''] [[1]])) testServer
     = (okResponse [(minerB @ ''-k'', [1])],
        testServer\<lparr>wlHistory := [(minerA, [1000]), (minerB, [])],
                   localDB := Some [(minerB @ ''-k'', [1]), (''private_key'', [7])]\<rparr>)"
  by code_simp

text \<open>
  C10. In a write request with as many keys as values, let \<open>j\<close> be the first index
  where the key has no whitelisted prefix or \<open>Put\<close> fails, the \<open>Put\<close>s of the pairs before
  \<open>j\<close> having succeeded. Then the response is an error response and the store is the
  store after the \<open>Put\<close>s of exactly the pairs before \<open>j\<close>: these stay written, the pair
  at \<open>j\<close> and the pairs after it are not written.
\<close>

theorem write_stops_at_first_failure:
  assumes dec: "decodeRequest (Keccak256 E) (Verify (SigToAddress E) now) data i = (Inr req, i1)"
    and p: "dbKeys req = Some keys" "dbValues req = Some vals" "length keys = length vals"
    and db: "localDB i = Some d"
    and j: "j < length keys"
    and before: "\<forall>m<j. hasAddressPrefix i (keys ! m)"
      "puts E (take j (zip keys vals)) d = Some dj"
    and fail: "\<not> hasAddressPrefix i (keys ! j) \<or> isl (DB_Put E (keys ! j) (vals ! j) dj)"
  shows "\<exists>msg. IncomingRequest E now data i = (errorResponse msg, i1\<lparr>localDB := Some dj\<rparr>)"
proof -
  from decodeRequest_Verify_keeps [OF dec] have
    k: "whitelist i1 = whitelist i" "localDB i1 = Some d" using db by simp_all
  from writeLoop_first_failure [of j keys 0 vals i E d dj] j p(3) before fail
  obtain msg where "writeLoop E i vals 0 keys d = (Some msg, dj)" by auto
  then have "IncomingRequest E now data i = (errorResponse msg, i1\<lparr>localDB := Some dj\<rparr>)"
    using dec p k j by (auto simp: IncomingRequest_def writeLoop_whitelist [OF k(1)])
  then show ?thesis by blast
qed

lemma three_pairs_decoded:
  "decodeRequest (Keccak256 testEnv) (Verify (SigToAddress testEnv) 1000000000000)
     (wire (writeRequest [minerA @ ''-a'', ''other'', minerA @ ''-c''] [[1], [2], [3]])) testServer
   = (Inr (writeRequest [minerA @ ''-a'', ''other'', minerA @ ''-c''] [[1], [2], [3]]),
      testServer\<lparr>wlHistory := [(minerA, [1000]), (minerB, [])]\<rparr>)"
  by code_simp

text \<open>
  Three pairs, the second under a key with no address in front: the response is an
  error response and the store has changed, it holds the first pair.
\<close>

theorem write_stops_at_first_failure_witness:
  "\<exists>msg. IncomingRequest testEnv 1000000000000
      (wire (writeRequest [minerA @ ''-a'', ''other'', minerA @ ''-c''] [[1], [2], [3]])) testServer
    = (errorResponse msg,
       testServer\<lparr>wlHistory := [(minerA, [1000]), (minerB, [])],
                  localDB := Some [(minerA @ ''-a'', [1]), (''private_key'', [7])]\<rparr>)"
proof -
  let ?keys = "[minerA @ ''-a'', ''other'', minerA @ ''-c'']"
  let ?vals = "[[1], [2], [3]] :: bytes list"
  have p: "dbKeys (writeRequest ?keys ?vals) = Some ?keys"
    "dbValues (writeRequest ?keys ?vals) = Some ?vals" "length ?keys = length ?vals"
    by (simp_all add: writeRequest_def)
  have db: "localDB testServer = Some [(''private_key'', [7])]"
    by (simp add: testServer_def)
  have j: "1 < length ?keys" by simp
  have before: "\<forall>m<1. hasAddressPrefix testServer (?keys ! m)"
    by (simp add: hasAddressPrefix_def testServer_def)
  have written: "puts testEnv (take 1 (zip ?keys ?vals)) [(''private_key'', [7])]
                   = Some [(minerA @ ''-a'', [1]), (''private_key'', [7])]"
    by (simp add: testEnv_def listDB_Put_def)
  have fail: "\<not> hasAddressPrefix testServer (?keys ! 1) \<or>
              isl (DB_Put testEnv (?keys ! 1) (?vals ! 1) [(minerA @ ''-a'', [1]), (''private_key'', [7])])"
    by (simp add: hasAddressPrefix_def testServer_def minerA_def minerB_def)
  from write_stops_at_first_failure [OF three_pairs_decoded p db j before written fail]
  show ?thesis by simp
qed

section \<open>Fetching with retries\<close>

lemma recReq_success:
  "recReq net req expiration n now = Inr body \<Longrightarrow>
   \<exists>m\<ge>n. \<exists>dur st. attempt net req m = (dur, HTTPResponse st body) \<and> 200 \<le> st \<and> st \<le> 299"
proof (induction net req expiration n now rule: recReq.induct)
  case (1 net req expiration n now)
  obtain dur r where a: "attempt net req n = (dur, r)" by (cases "attempt net req n")
  show ?case
  proof (cases r)
    case (TransportError err)
    with a "1.prems" have na: "\<not> After (now + int dur) expiration"
      and rec: "recReq net req expiration (Suc n) (now + int dur + sleep500ms) = Inr body"
      by (auto simp: recReq.simps [of net req expiration n now] split: if_splits)
    from "1.IH"(1) [OF a [symmetric] TransportError na rec] show ?thesis
      by (meson Suc_leD)
  next
    case (HTTPResponse st data)
    show ?thesis
    proof (cases "st < 200 \<or> st > 299")
      case True
      with a HTTPResponse "1.prems" have na: "\<not> After (now + int dur) expiration"
        and rec: "recReq net req expiration (Suc n) (now + int dur + sleep500ms) = Inr body"
        by (auto simp: recReq.simps [of net req expiration n now] split: if_splits)
      from "1.IH"(2) [OF a [symmetric] HTTPResponse True na rec] show ?thesis
        by (meson Suc_leD)
    next
      case False
      with a HTTPResponse "1.prems" have "data = body"
        by (auto simp: recReq.simps [of net req expiration n now])
      with a HTTPResponse False show ?thesis by (intro exI [of _ n]) auto
    qed
  qed
qed

text \<open>
  C7, as amended. The deadline of \<open>HTTPWithRetries\<close> is the start time plus the
  request's \<open>Timeout\<close>. A response whose status code is outside 200..299 is transient:
  if the deadline has passed when the response has been read the fetch gives up with an
  error, otherwise it sleeps half a second and tries again. A body is returned as success
  only when it is the body of a response with a status code in 200..299.
\<close>

theorem HTTPWithRetries_transient:
  "HTTPWithRetries net req start = recReq net req (start + Timeout req) 0 start \<and>
   (attempt net req n = (dur, HTTPResponse st data) \<longrightarrow> st < 200 \<or> st > 299 \<longrightarrow>
      recReq net req expiration n now =
        (if After (now + int dur) expiration then
           Inl (Errorf ''giving up fetch request after request timeout: %d'')
         else recReq net req expiration (Suc n) (now + int dur + sleep500ms))) \<and>
   (recReq net req expiration n now = Inr body \<longrightarrow>
      (\<exists>m\<ge>n. \<exists>dur' st'. attempt net req m = (dur', HTTPResponse st' body) \<and>
          200 \<le> st' \<and> st' \<le> 299))"
  using recReq_success [of net req expiration n now body]
  by (auto simp: HTTPWithRetries_def recReq.simps [of net req expiration n now])

text \<open>
  A 503 followed by a 200: the fetch retries after the 503 and returns the body of the
  200.
\<close>

theorem HTTPWithRetries_transient_witness:
  "HTTPWithRetries net503then200 postRequest 0 = Inr [42]"
proof -
  have a0: "attempt net503then200 postRequest 0 = (100000000, HTTPResponse 503 [])"
    by (simp add: attempt_def net503then200_def postRequest_def GET_def POST_def)
  have a1: "attempt net503then200 postRequest (Suc 0) = (100000000, HTTPResponse 200 [42])"
    by (simp add: attempt_def net503then200_def postRequest_def GET_def POST_def)
  have st: "(503::int) < 200 \<or> (503::int) > 299" by simp
  from HTTPWithRetries_transient [of net503then200 postRequest 0 0 100000000 503 "[]"
      10000000000 0, THEN conjunct2, THEN conjunct1, rule_format, OF a0 st]
  have "recReq net503then200 postRequest 10000000000 0 0 =
          recReq net503then200 postRequest 10000000000 (Suc 0) 600000000"
    by (simp add: After_def sleep500ms_def)
  also have "\<dots> = Inr [42]"
    by (subst recReq.simps) (simp add: a1)
  finally show ?thesis
    by (simp add: HTTPWithRetries_def postRequest_def)
qed

text \<open>
  The claim as stated fails: a response with status 204 is not retried, its body is
  returned as success.
\<close>

theorem HTTPWithRetries_204_counterexample:
  "HTTPWithRetries net204 postRequest 0 = Inr [42]"
  by (simp add: HTTPWithRetries_def attempt_def net204_def postRequest_def GET_def POST_def)

section \<open>Starting the miner\<close>

text \<open>
  C6. If the dispute status read from the store decodes to a big integer other than 1,
  the command prints "checking miner failed: miner is not able to mine with current
  status" and a newline to stderr and exits with code -1; the mining manager is neither
  created nor started.
\<close>

theorem mineCmd_refuses:
  "DecodeBig (map char_of_byte (elems v)) = Inr status \<Longrightarrow> status \<noteq> 1 \<Longrightarrow>
   mineCmd DecodeBig (v, err) create =
     Exited (- 1) (''checking miner failed: miner is not able to mine with current status'' @ [CHR 0x0A])"
  by (simp add: mineCmd_def ExitOnError_def)

text \<open>
  The store holds \<open>0x0\<close>.
\<close>

theorem mineCmd_refuses_witness:
  "mineCmd testDecodeBig (Some (map byte_of_char ''0x0''), None) None =
     Exited (- 1) (''checking miner failed: miner is not able to mine with current status'' @ [CHR 0x0A])"
proof -
  have d: "testDecodeBig (map char_of_byte (elems (Some (map byte_of_char ''0x0'')))) = Inr 0"
    by (simp add: testDecodeBig_def char_of_byte_of_char)
  have s: "(0::int) \<noteq> 1" by simp
  from mineCmd_refuses [where DecodeBig = testDecodeBig, OF d s] show ?thesis .
qed

text \<open>
  C9. If the dispute status read from the store does not decode (for a missing value
  the empty string is decoded), the error of the decoding is dropped and the comparison
  reads through a nil pointer: the command panics, it does not exit through
  \<open>ExitOnError\<close>.
\<close>

theorem mineCmd_panics:
  "isl (DecodeBig (map char_of_byte (elems v))) \<Longrightarrow>
   mineCmd DecodeBig (v, err) create =
     Panicked ''runtime error: invalid memory address or nil pointer dereference''"
  by (auto simp: mineCmd_def isl_def)

text \<open>
  The value is missing and \<open>Get\<close> has returned an error.
\<close>

theorem mineCmd_panics_witness:
  "mineCmd testDecodeBig (None, Some (Errorf ''leveldb: not found'')) None =
     Panicked ''runtime error: invalid memory address or nil pointer dereference''"
proof -
  have d: "isl (testDecodeBig (map char_of_byte (elems None)))"
    by (simp add: testDecodeBig_def)
  from mineCmd_panics [where DecodeBig = testDecodeBig, OF d] show ?thesis .
qed

end
